theory Spec2Isabelle
  imports Complex_Main
begin

section \<open>TaskFlow: the storage layer and the task controller\<close>

text \<open>
  The development follows the two script files of the application: the storage manager
  (\<^verbatim>\<open>storage.js\<close>, class \<^verbatim>\<open>TaskStorage\<close>) and the task controller (class
  \<^verbatim>\<open>TaskManager\<close>). Both are thin layers over services of the browser: the JSON codec,
  the persistent key-value store, the clock, and the document. Those services are modelled
  first, as far as the two classes use them, and the classes are translated on top of them.

  A JavaScript string is modelled as a \<^typ>\<open>string\<close>: the bytes of its UTF-8 encoding.
  Everything the code does with strings (trimming, JSON quoting, markup escaping) acts on
  ASCII characters or on whole encoded characters, so it can be written on the bytes.
\<close>

subsection \<open>Decimal numerals\<close>

definition digit_char :: "nat \<Rightarrow> char" where
  "digit_char d = ''0123456789'' ! (d mod 10)"

definition is_digit :: "char \<Rightarrow> bool" where
  "is_digit c = (c \<in> set ''0123456789'')"

definition digit_val :: "char \<Rightarrow> nat" where
  "digit_val c = of_char c - 48"

function show_nat :: "nat \<Rightarrow> string" where
  "show_nat n = (if n < 10 then [digit_char n] else show_nat (n div 10) @ [digit_char n])"
  by pat_completeness auto
termination
  by (relation "measure id") auto

declare show_nat.simps [simp del]

definition show_int :: "int \<Rightarrow> string" where
  "show_int i = (if i < 0 then ''-'' @ show_nat (nat (- i)) else show_nat (nat i))"

text \<open>The value of a run of decimal digits, read from the left with an accumulator.\<close>

fun read_digits :: "nat \<Rightarrow> string \<Rightarrow> nat" where
  "read_digits acc [] = acc"
| "read_digits acc (c # cs) = read_digits (acc * 10 + digit_val c) cs"

definition pad_left :: "nat \<Rightarrow> string \<Rightarrow> string" where
  "pad_left w s = replicate (w - length s) (CHR ''0'') @ s"

subsection \<open>Numbers as text\<close>

text \<open>
  A Number is modelled by the rational it denotes: rounding to a binary double is not
  modelled, and neither are \<^verbatim>\<open>NaN\<close>, the infinities and the negative zero. The
  application itself only produces integers (clock readings).

  \<open>Number_toString\<close> is the radix-10 conversion of the language: with \<open>s\<close> the
  significant digits of the number, \<open>k\<close> their count and \<open>n\<close> the position of the
  decimal point, the digits are written plainly when \<open>0 < n \<le> 21\<close>, with leading
  zeros when \<open>-6 < n \<le> 0\<close>, and in exponent notation otherwise. An integer below
  \<open>10 ^ 21\<close> is the case \<open>k \<le> n \<le> 21\<close>: its decimal numeral.
\<close>

fun scale_up :: "nat \<Rightarrow> rat \<Rightarrow> int \<Rightarrow> rat \<times> int" where
  "scale_up 0 x e = (x, e)"
| "scale_up (Suc f) x e =
     (if x = of_int \<lfloor>x\<rfloor> then (x, e) else scale_up f (x * 10) (e - 1))"

function strip_zeros :: "nat \<Rightarrow> int \<Rightarrow> nat \<times> int" where
  "strip_zeros s e =
     (if s \<noteq> 0 \<and> s mod 10 = 0 then strip_zeros (s div 10) (e + 1) else (s, e))"
  by pat_completeness auto
termination
  by (relation "measure fst") auto

declare strip_zeros.simps [simp del]

definition decimal_of :: "rat \<Rightarrow> nat \<times> int" where
  "decimal_of x =
     (case scale_up (nat (snd (quotient_of x))) x 0 of
        (y, e) \<Rightarrow> strip_zeros (nat \<lfloor>y\<rfloor>) e)"

definition Number_digits :: "rat \<Rightarrow> string" where
  "Number_digits x =
     (case decimal_of x of (s, e) \<Rightarrow>
        let ds = show_nat s; k = int (length ds); n = k + e in
        if k \<le> n \<and> n \<le> 21 then ds @ replicate (nat (n - k)) (CHR ''0'')
        else if 0 < n \<and> n \<le> 21 then take (nat n) ds @ ''.'' @ drop (nat n) ds
        else if - 6 < n \<and> n \<le> 0 then ''0.'' @ replicate (nat (- n)) (CHR ''0'') @ ds
        else (if k = 1 then ds else take 1 ds @ ''.'' @ drop 1 ds) @ ''e''
               @ (if n - 1 < 0 then ''-'' else ''+'') @ show_nat (nat \<bar>n - 1\<bar>))"

definition Number_toString_pos :: "rat \<Rightarrow> string" where
  "Number_toString_pos x =
     (if x = of_int \<lfloor>x\<rfloor> \<and> x < 10 ^ 21 then show_nat (nat \<lfloor>x\<rfloor>) else Number_digits x)"

definition Number_toString :: "rat \<Rightarrow> string" where
  "Number_toString x =
     (if x < 0 then ''-'' @ Number_toString_pos (- x) else Number_toString_pos x)"

subsection \<open>Dates as text\<close>

text \<open>
  A Date is its time value: milliseconds since the epoch, an integer of magnitude at most
  \<open>8.64 * 10 ^ 15\<close>. \<open>toISOString\<close> writes it in the UTC calendar; the days are turned
  into a civil date by the usual era arithmetic of the proleptic Gregorian calendar. A year
  outside \<open>0 .. 9999\<close> is written with a sign and six digits.
\<close>

definition valid_time :: "int \<Rightarrow> bool" where
  "valid_time t = (\<bar>t\<bar> \<le> 8640000000000000)"

definition civil_from_days :: "int \<Rightarrow> int \<times> int \<times> int" where
  "civil_from_days days =
     (let z = days + 719468;
          era = z div 146097;
          doe = z - era * 146097;
          yoe = (doe - doe div 1460 + doe div 36524 - doe div 146096) div 365;
          y = yoe + era * 400;
          doy = doe - (365 * yoe + yoe div 4 - yoe div 100);
          mp = (5 * doy + 2) div 153;
          d = doy - (153 * mp + 2) div 5 + 1;
          m = (if mp < 10 then mp + 3 else mp - 9)
      in (if m \<le> 2 then y + 1 else y, m, d))"

definition iso_year :: "int \<Rightarrow> string" where
  "iso_year y =
     (if 0 \<le> y \<and> y \<le> 9999 then pad_left 4 (show_nat (nat y))
      else (if y < 0 then ''-'' else ''+'') @ pad_left 6 (show_nat (nat \<bar>y\<bar>)))"

definition toISOString :: "int \<Rightarrow> string" where
  "toISOString t =
     (let ms = t mod 86400000;
          (y, m, d) = civil_from_days (t div 86400000)
      in iso_year y @ ''-'' @ pad_left 2 (show_nat (nat m)) @ ''-''
           @ pad_left 2 (show_nat (nat d)) @ ''T''
           @ pad_left 2 (show_nat (nat (ms div 3600000))) @ '':''
           @ pad_left 2 (show_nat (nat (ms div 60000 mod 60))) @ '':''
           @ pad_left 2 (show_nat (nat (ms div 1000 mod 60))) @ ''.''
           @ pad_left 3 (show_nat (nat (ms mod 1000))) @ ''Z'')"

subsection \<open>Values of the language\<close>

text \<open>
  The values that reach the storage layer: the JSON values, \<^verbatim>\<open>undefined\<close>, and Date
  objects. An object is the list of its own properties in the order the language
  enumerates them.
\<close>

datatype jsval =
    JUndefined
  | JNull
  | JBool bool
  | JNum rat
  | JStr string
  | JDate int
  | JArr "jsval list"
  | JObj "(string \<times> jsval) list"

datatype error = SyntaxError | TypeError | RangeError | QuotaExceededError | OutOfFuel

subsection \<open>\<^verbatim>\<open>JSON.stringify\<close>\<close>

definition hex_char :: "nat \<Rightarrow> char" where
  "hex_char d = ''0123456789abcdef'' ! (d mod 16)"

definition json_escape :: "char \<Rightarrow> string" where
  "json_escape c =
     (if c = CHR 0x08 then [CHR 0x5C, CHR ''b'']
      else if c = CHR 0x09 then [CHR 0x5C, CHR ''t'']
      else if c = CHR 0x0A then [CHR 0x5C, CHR ''n'']
      else if c = CHR 0x0C then [CHR 0x5C, CHR ''f'']
      else if c = CHR 0x0D then [CHR 0x5C, CHR ''r'']
      else if c = CHR 0x22 then [CHR 0x5C, CHR 0x22]
      else if c = CHR 0x5C then [CHR 0x5C, CHR 0x5C]
      else if (of_char c :: nat) < 32
        then [CHR 0x5C, CHR ''u'', CHR ''0'', CHR ''0'',
              hex_char (of_char c div 16), hex_char (of_char c)]
      else [c])"

definition QuoteJSONString :: "string \<Rightarrow> string" where
  "QuoteJSONString s = [CHR 0x22] @ concat (map json_escape s) @ [CHR 0x22]"

fun join_commas :: "string list \<Rightarrow> string" where
  "join_commas [] = []"
| "join_commas [s] = s"
| "join_commas (s # t # ss) = s @ '','' @ join_commas (t # ss)"

text \<open>
  \<open>SerializeJSONProperty\<close> gives no text for \<^verbatim>\<open>undefined\<close>; an array writes
  \<^verbatim>\<open>null\<close> for such an element and an object leaves the property out. A Date is
  written as the string its \<^verbatim>\<open>toJSON\<close> method returns.
\<close>

fun SerializeJSONProperty :: "jsval \<Rightarrow> string option"
  and SerializeJSONArray :: "jsval list \<Rightarrow> string list"
  and SerializeJSONObject :: "(string \<times> jsval) list \<Rightarrow> string list" where
  "SerializeJSONProperty JUndefined = None"
| "SerializeJSONProperty JNull = Some ''null''"
| "SerializeJSONProperty (JBool b) = Some (if b then ''true'' else ''false'')"
| "SerializeJSONProperty (JNum x) = Some (Number_toString x)"
| "SerializeJSONProperty (JStr s) = Some (QuoteJSONString s)"
| "SerializeJSONProperty (JDate t) = Some (QuoteJSONString (toISOString t))"
| "SerializeJSONProperty (JArr vs) = Some (''['' @ join_commas (SerializeJSONArray vs) @ '']'')"
| "SerializeJSONProperty (JObj ps) = Some (''{'' @ join_commas (SerializeJSONObject ps) @ ''}'')"
| "SerializeJSONArray [] = []"
| "SerializeJSONArray (v # vs) =
     (case SerializeJSONProperty v of None \<Rightarrow> ''null'' | Some s \<Rightarrow> s) # SerializeJSONArray vs"
| "SerializeJSONObject [] = []"
| "SerializeJSONObject ((k, v) # ps) =
     (case SerializeJSONProperty v of
        None \<Rightarrow> SerializeJSONObject ps
      | Some s \<Rightarrow> (QuoteJSONString k @ '':'' @ s) # SerializeJSONObject ps)"

definition JSON_stringify :: "jsval \<Rightarrow> string option" where
  "JSON_stringify v = SerializeJSONProperty v"

subsection \<open>\<^verbatim>\<open>JSON.parse\<close>\<close>

text \<open>
  The parser follows the JSON grammar: insignificant whitespace (space, tab, line feed,
  carriage return) around every token, the three literals, numbers, strings with their
  escapes, arrays and objects. It returns the value read and the rest of the text.
\<close>

definition is_ws :: "char \<Rightarrow> bool" where
  "is_ws c = (c = CHR 0x20 \<or> c = CHR 0x09 \<or> c = CHR 0x0A \<or> c = CHR 0x0D)"

definition skip_ws :: "string \<Rightarrow> string" where
  "skip_ws s = dropWhile is_ws s"

text \<open>
  A number: an optional minus sign, an integer part without a superfluous leading zero, an
  optional fraction and an optional exponent. Its value is exact.
\<close>

definition number_value :: "bool \<Rightarrow> string \<Rightarrow> string \<Rightarrow> int \<Rightarrow> rat" where
  "number_value neg ds fs ex =
     (let m = (of_nat (read_digits 0 (ds @ fs)) :: rat);
          e = ex - int (length fs);
          x = (if 0 \<le> e then m * 10 ^ nat e else m / 10 ^ nat (- e))
      in if neg then - x else x)"

definition parse_exponent :: "string \<Rightarrow> error + (int \<times> string)" where
  "parse_exponent s =
     (case s of
        [] \<Rightarrow> Inr (0, s)
      | c # cs \<Rightarrow>
          if c = CHR ''e'' \<or> c = CHR ''E'' then
            (let (neg, t) =
                   (case cs of
                      [] \<Rightarrow> (False, cs)
                    | d # ds \<Rightarrow>
                        if d = CHR ''-'' then (True, ds)
                        else if d = CHR ''+'' then (False, ds) else (False, cs));
                 es = takeWhile is_digit t
             in if es = [] then Inl SyntaxError
                else Inr (if neg then - int (read_digits 0 es) else int (read_digits 0 es),
                          dropWhile is_digit t))
          else Inr (0, s))"

definition parse_fraction :: "string \<Rightarrow> error + (string \<times> string)" where
  "parse_fraction s =
     (case s of
        [] \<Rightarrow> Inr ([], s)
      | c # cs \<Rightarrow>
          if c = CHR ''.'' then
            (let fs = takeWhile is_digit cs
             in if fs = [] then Inl SyntaxError else Inr (fs, dropWhile is_digit cs))
          else Inr ([], s))"

definition parse_number :: "string \<Rightarrow> error + (rat \<times> string)" where
  "parse_number s =
     (let (neg, s1) =
            (case s of
               [] \<Rightarrow> (False, s)
             | c # cs \<Rightarrow> if c = CHR ''-'' then (True, cs) else (False, s));
          ds = takeWhile is_digit s1
      in if ds = [] \<or> (1 < length ds \<and> hd ds = CHR ''0'') then Inl SyntaxError
         else
           (case parse_fraction (dropWhile is_digit s1) of
              Inl e \<Rightarrow> Inl e
            | Inr (fs, s2) \<Rightarrow>
                (case parse_exponent s2 of
                   Inl e \<Rightarrow> Inl e
                 | Inr (ex, s3) \<Rightarrow> Inr (number_value neg ds fs ex, s3))))"

text \<open>
  A string: the characters up to the closing quote. A raw control character is refused.
  An escape \<^verbatim>\<open>\uXXXX\<close> names a UTF-16 code unit; a high surrogate followed by the
  escape of a low surrogate is one code point. The code point is stored in UTF-8 (a
  surrogate on its own in the same three-byte pattern).
\<close>

definition hex_val :: "char \<Rightarrow> nat option" where
  "hex_val c =
     (if is_digit c then Some (digit_val c)
      else if c \<in> set ''abcdef'' then Some (of_char c - 87)
      else if c \<in> set ''ABCDEF'' then Some (of_char c - 55)
      else None)"

definition hex4 :: "string \<Rightarrow> (nat \<times> string) option" where
  "hex4 s =
     (case s of
        a # b # c # d # rest \<Rightarrow>
          (case (hex_val a, hex_val b, hex_val c, hex_val d) of
             (Some w, Some x, Some y, Some z) \<Rightarrow> Some (((w * 16 + x) * 16 + y) * 16 + z, rest)
           | _ \<Rightarrow> None)
      | _ \<Rightarrow> None)"

definition utf8_encode :: "nat \<Rightarrow> string" where
  "utf8_encode cp =
     (if cp < 0x80 then [char_of cp]
      else if cp < 0x800 then [char_of (0xC0 + cp div 64), char_of (0x80 + cp mod 64)]
      else if cp < 0x10000 then
        [char_of (0xE0 + cp div 4096), char_of (0x80 + cp div 64 mod 64),
         char_of (0x80 + cp mod 64)]
      else
        [char_of (0xF0 + cp div 262144), char_of (0x80 + cp div 4096 mod 64),
         char_of (0x80 + cp div 64 mod 64), char_of (0x80 + cp mod 64)])"

text \<open>The low surrogate escape that completes a high surrogate, when the text has one.\<close>

definition low_surrogate :: "string \<Rightarrow> (nat \<times> string) option" where
  "low_surrogate s =
     (case s of
        a # b # t \<Rightarrow>
          if a = CHR 0x5C \<and> b = CHR ''u'' then
            (case hex4 t of
               Some (lo, rest) \<Rightarrow> if 0xDC00 \<le> lo \<and> lo < 0xE000 then Some (lo, rest) else None
             | None \<Rightarrow> None)
          else None
      | _ \<Rightarrow> None)"

definition simple_escape :: "char \<Rightarrow> char option" where
  "simple_escape e =
     (if e = CHR 0x22 then Some (CHR 0x22)
      else if e = CHR 0x5C then Some (CHR 0x5C)
      else if e = CHR ''/'' then Some (CHR ''/'')
      else if e = CHR ''b'' then Some (CHR 0x08)
      else if e = CHR ''f'' then Some (CHR 0x0C)
      else if e = CHR ''n'' then Some (CHR 0x0A)
      else if e = CHR ''r'' then Some (CHR 0x0D)
      else if e = CHR ''t'' then Some (CHR 0x09)
      else None)"

lemma hex4_length: "hex4 s = Some (v, rest) \<Longrightarrow> length s = length rest + 4"
  by (auto simp: hex4_def split: list.splits option.splits)

lemma low_surrogate_length: "low_surrogate s = Some (v, rest) \<Longrightarrow> length s = length rest + 6"
  by (auto simp: low_surrogate_def split: list.splits option.splits if_splits dest: hex4_length)

function parse_string_chars :: "string \<Rightarrow> error + (string \<times> string)" where
  "parse_string_chars [] = Inl SyntaxError"
| "parse_string_chars (c # cs) =
     (if c = CHR 0x22 then Inr ([], cs)
      else if c = CHR 0x5C then
        (case cs of
           [] \<Rightarrow> Inl SyntaxError
         | e # es \<Rightarrow>
             if e = CHR ''u'' then
               (case hex4 es of
                  None \<Rightarrow> Inl SyntaxError
                | Some (hi, rest) \<Rightarrow>
                    (case (if 0xD800 \<le> hi \<and> hi < 0xDC00 then low_surrogate rest else None) of
                       Some (lo, rest') \<Rightarrow>
                         (case parse_string_chars rest' of
                            Inl err \<Rightarrow> Inl err
                          | Inr (s, r) \<Rightarrow>
                              Inr (utf8_encode (0x10000 + (hi - 0xD800) * 1024 + (lo - 0xDC00)) @ s, r))
                     | None \<Rightarrow>
                         (case parse_string_chars rest of
                            Inl err \<Rightarrow> Inl err
                          | Inr (s, r) \<Rightarrow> Inr (utf8_encode hi @ s, r))))
             else
               (case simple_escape e of
                  None \<Rightarrow> Inl SyntaxError
                | Some d \<Rightarrow>
                    (case parse_string_chars es of
                       Inl err \<Rightarrow> Inl err
                     | Inr (s, r) \<Rightarrow> Inr (d # s, r))))
      else if (of_char c :: nat) < 32 then Inl SyntaxError
      else
        (case parse_string_chars cs of
           Inl err \<Rightarrow> Inl err
         | Inr (s, r) \<Rightarrow> Inr (c # s, r)))"
  by pat_completeness auto
termination
  by (relation "measure length")
     (auto dest!: hex4_length low_surrogate_length split: if_splits)

declare parse_string_chars.simps [simp del]

text \<open>
  The properties of an ordinary object are enumerated with the array indices first, in
  ascending order, and the other names after them in the order of their creation.
  \<open>CreateDataProperty\<close> overwrites a property in place and puts a new one where that
  order has it.
\<close>

definition array_index :: "string \<Rightarrow> nat option" where
  "array_index k =
     (if k \<noteq> [] \<and> list_all is_digit k \<and> (k = ''0'' \<or> hd k \<noteq> CHR ''0'')
         \<and> read_digits 0 k \<le> 4294967294
      then Some (read_digits 0 k) else None)"

definition key_before :: "string \<Rightarrow> string \<Rightarrow> bool" where
  "key_before k k' =
     (case array_index k of
        None \<Rightarrow> False
      | Some i \<Rightarrow> (case array_index k' of None \<Rightarrow> True | Some j \<Rightarrow> i < j))"

fun insert_property :: "string \<Rightarrow> jsval \<Rightarrow> (string \<times> jsval) list \<Rightarrow> (string \<times> jsval) list" where
  "insert_property k v [] = [(k, v)]"
| "insert_property k v (p # ps) =
     (if key_before k (fst p) then (k, v) # p # ps else p # insert_property k v ps)"

definition CreateDataProperty :: "(string \<times> jsval) list \<Rightarrow> string \<Rightarrow> jsval \<Rightarrow> (string \<times> jsval) list" where
  "CreateDataProperty ps k v =
     (if k \<in> fst ` set ps then map (\<lambda>p. if fst p = k then (k, v) else p) ps
      else insert_property k v ps)"

definition object_of_members :: "(string \<times> jsval) list \<Rightarrow> jsval" where
  "object_of_members ms = JObj (foldl (\<lambda>ps m. CreateDataProperty ps (fst m) (snd m)) [] ms)"

text \<open>
  The value parser recurses into arrays and objects. The fuel bounds the depth of the
  recursion; each call passes less fuel on, and a call without fuel reports \<open>OutOfFuel\<close>.
  \<open>parse_elements\<close> reads the elements of an array after its opening bracket,
  \<open>parse_members\<close> the members of an object after its opening brace.
\<close>

fun parse_value :: "nat \<Rightarrow> string \<Rightarrow> error + (jsval \<times> string)"
  and parse_elements :: "nat \<Rightarrow> string \<Rightarrow> error + (jsval list \<times> string)"
  and parse_members :: "nat \<Rightarrow> string \<Rightarrow> error + ((string \<times> jsval) list \<times> string)" where
  "parse_value 0 s = Inl OutOfFuel"
| "parse_value (Suc n) s =
     (case skip_ws s of
        [] \<Rightarrow> Inl SyntaxError
      | c # cs \<Rightarrow>
          if c = CHR 0x22 then
            (case parse_string_chars cs of
               Inl e \<Rightarrow> Inl e
             | Inr (str, rest) \<Rightarrow> Inr (JStr str, rest))
          else if c = CHR ''['' then
            (if take 1 (skip_ws cs) = '']'' then Inr (JArr [], drop 1 (skip_ws cs))
             else
               (case parse_elements n cs of
                  Inl e \<Rightarrow> Inl e
                | Inr (vs, rest) \<Rightarrow> Inr (JArr vs, rest)))
          else if c = CHR ''{'' then
            (if take 1 (skip_ws cs) = ''}'' then Inr (JObj [], drop 1 (skip_ws cs))
             else
               (case parse_members n cs of
                  Inl e \<Rightarrow> Inl e
                | Inr (ms, rest) \<Rightarrow> Inr (object_of_members ms, rest)))
          else if take 4 (c # cs) = ''null'' then Inr (JNull, drop 4 (c # cs))
          else if take 4 (c # cs) = ''true'' then Inr (JBool True, drop 4 (c # cs))
          else if take 5 (c # cs) = ''false'' then Inr (JBool False, drop 5 (c # cs))
          else if c = CHR ''-'' \<or> is_digit c then
            (case parse_number (c # cs) of
               Inl e \<Rightarrow> Inl e
             | Inr (x, rest) \<Rightarrow> Inr (JNum x, rest))
          else Inl SyntaxError)"
| "parse_elements 0 s = Inl OutOfFuel"
| "parse_elements (Suc n) s =
     (case parse_value n s of
        Inl e \<Rightarrow> Inl e
      | Inr (v, rest) \<Rightarrow>
          (case skip_ws rest of
             [] \<Rightarrow> Inl SyntaxError
           | c # cs \<Rightarrow>
               if c = CHR '','' then
                 (case parse_elements n cs of
                    Inl e \<Rightarrow> Inl e
                  | Inr (vs, rest') \<Rightarrow> Inr (v # vs, rest'))
               else if c = CHR '']'' then Inr ([v], cs)
               else Inl SyntaxError))"
| "parse_members 0 s = Inl OutOfFuel"
| "parse_members (Suc n) s =
     (case skip_ws s of
        [] \<Rightarrow> Inl SyntaxError
      | q # qs \<Rightarrow>
          if q \<noteq> CHR 0x22 then Inl SyntaxError
          else
            (case parse_string_chars qs of
               Inl e \<Rightarrow> Inl e
             | Inr (k, rest) \<Rightarrow>
                 if take 1 (skip_ws rest) \<noteq> '':'' then Inl SyntaxError
                 else
                   (case parse_value n (drop 1 (skip_ws rest)) of
                      Inl e \<Rightarrow> Inl e
                    | Inr (v, rest') \<Rightarrow>
                        (case skip_ws rest' of
                           [] \<Rightarrow> Inl SyntaxError
                         | c # cs \<Rightarrow>
                             if c = CHR '','' then
                               (case parse_members n cs of
                                  Inl e \<Rightarrow> Inl e
                                | Inr (ms, rest'') \<Rightarrow> Inr ((k, v) # ms, rest''))
                             else if c = CHR ''}'' then Inr ([(k, v)], cs)
                             else Inl SyntaxError))))"

declare parse_value.simps [simp del] parse_elements.simps [simp del] parse_members.simps [simp del]

text \<open>
  \<open>JSON.parse\<close> reads one value and accepts nothing but whitespace after it. The fuel
  it starts with is never used up (\<open>JSON_parse_fuel\<close> below), so the only error is the
  syntax error of the language.
\<close>

definition JSON_parse :: "string \<Rightarrow> error + jsval" where
  "JSON_parse s =
     (case parse_value (2 * length s + 1) s of
        Inl e \<Rightarrow> Inl e
      | Inr (v, rest) \<Rightarrow> if skip_ws rest = [] then Inr v else Inl SyntaxError)"

subsection \<open>The persistent store\<close>

text \<open>
  \<^verbatim>\<open>localStorage\<close> maps keys to strings. Writing may fail: the store has a quota, and
  \<open>setItem\<close> raises \<open>QuotaExceededError\<close> when the new contents would not fit. The
  size of the contents is counted in characters of the keys and the values.
\<close>

record local_storage =
  items :: "(string \<times> string) list"
  quota :: nat

definition getItem :: "local_storage \<Rightarrow> string \<Rightarrow> string option" where
  "getItem ls k = map_of (items ls) k"

fun put_item :: "string \<Rightarrow> string \<Rightarrow> (string \<times> string) list \<Rightarrow> (string \<times> string) list" where
  "put_item k v [] = [(k, v)]"
| "put_item k v (p # ps) = (if fst p = k then (k, v) # ps else p # put_item k v ps)"

definition usage :: "(string \<times> string) list \<Rightarrow> nat" where
  "usage kvs = sum_list (map (\<lambda>p. length (fst p) + length (snd p)) kvs)"

definition setItem :: "local_storage \<Rightarrow> string \<Rightarrow> string \<Rightarrow> error + local_storage" where
  "setItem ls k v =
     (if quota ls < usage (put_item k v (items ls)) then Inl QuotaExceededError
      else Inr (ls\<lparr>items := put_item k v (items ls)\<rparr>))"

text \<open>
  \<open>setItem\<close> stores the string of its argument; \<open>JSON.stringify\<close> returns
  \<^verbatim>\<open>undefined\<close> when it has no text for the value, and the string of that is its name.
\<close>

definition ToString_text :: "string option \<Rightarrow> string" where
  "ToString_text r = (case r of None \<Rightarrow> ''undefined'' | Some s \<Rightarrow> s)"

subsection \<open>The storage manager\<close>

text \<open>
  The methods of \<^verbatim>\<open>TaskStorage\<close>. A method that can raise returns a sum; a method
  that writes returns the store it leaves. The messages written to the console are not
  part of the model.
\<close>

definition storageKey :: string where
  "storageKey = ''taskflow_tasks''"

definition preferenceKey :: string where
  "preferenceKey = ''taskflow_preferences''"

definition getTasks :: "local_storage \<Rightarrow> error + jsval" where
  "getTasks ls =
     (case getItem ls storageKey of
        None \<Rightarrow> Inr (JArr [])
      | Some tasksJSON \<Rightarrow> if tasksJSON \<noteq> [] then JSON_parse tasksJSON else Inr (JArr []))"

definition saveTasks :: "jsval \<Rightarrow> local_storage \<Rightarrow> bool \<times> local_storage" where
  "saveTasks tasks ls =
     (case setItem ls storageKey (ToString_text (JSON_stringify tasks)) of
        Inl e \<Rightarrow> (False, ls)
      | Inr ls' \<Rightarrow> (True, ls'))"

definition default_preferences :: jsval where
  "default_preferences =
     JObj [(''darkMode'', JBool True), (''accentColor'', JStr ''lilac''),
           (''hideCompleted'', JBool False)]"

text \<open>The body of the \<^verbatim>\<open>try\<close> block of \<^verbatim>\<open>getPreferences\<close>, and the method with its handler.\<close>

definition getPreferences_try :: "local_storage \<Rightarrow> error + jsval" where
  "getPreferences_try ls =
     (case getItem ls preferenceKey of
        None \<Rightarrow> Inr default_preferences
      | Some preferencesJSON \<Rightarrow>
          if preferencesJSON \<noteq> [] then JSON_parse preferencesJSON else Inr default_preferences)"

definition getPreferences :: "local_storage \<Rightarrow> error + jsval" where
  "getPreferences ls =
     (case getPreferences_try ls of
        Inl e \<Rightarrow> Inr default_preferences
      | Inr preferences \<Rightarrow> Inr preferences)"

definition savePreferences :: "jsval \<Rightarrow> local_storage \<Rightarrow> bool \<times> local_storage" where
  "savePreferences preferences ls =
     (case setItem ls preferenceKey (ToString_text (JSON_stringify preferences)) of
        Inl e \<Rightarrow> (False, ls)
      | Inr ls' \<Rightarrow> (True, ls'))"

text \<open>
  The assignment \<^verbatim>\<open>preferences[key] = value\<close>, in strict code. On \<^verbatim>\<open>null\<close> and
  \<^verbatim>\<open>undefined\<close> it raises a type error, and so it does on a primitive value. An
  object overwrites its own property of that name or gets a new one; the name
  \<^verbatim>\<open>__proto__\<close>, when not an own property, is the accessor of the prototype and leaves
  the own properties alone. On an array, an index writes that element, extending the array
  where needed; the other property names of an array are outside the model and leave its
  elements as they are.
\<close>

definition set_element :: "jsval list \<Rightarrow> nat \<Rightarrow> jsval \<Rightarrow> jsval list" where
  "set_element vs i v = (vs @ replicate (Suc i - length vs) JUndefined)[i := v]"

definition set_property :: "jsval \<Rightarrow> string \<Rightarrow> jsval \<Rightarrow> error + jsval" where
  "set_property obj k v =
     (case obj of
        JUndefined \<Rightarrow> Inl TypeError
      | JNull \<Rightarrow> Inl TypeError
      | JObj ps \<Rightarrow>
          if k \<in> fst ` set ps \<or> k \<noteq> ''__proto__'' then Inr (JObj (CreateDataProperty ps k v))
          else Inr obj
      | JArr vs \<Rightarrow>
          (case array_index k of
             Some i \<Rightarrow> Inr (JArr (set_element vs i v))
           | None \<Rightarrow> Inr obj)
      | JDate t \<Rightarrow> Inr obj
      | _ \<Rightarrow> if k = ''__proto__'' then Inr obj else Inl TypeError)"

definition updatePreference :: "string \<Rightarrow> jsval \<Rightarrow> local_storage \<Rightarrow> error + (bool \<times> local_storage)" where
  "updatePreference key val ls =
     (case getPreferences ls of
        Inl e \<Rightarrow> Inl e
      | Inr preferences \<Rightarrow>
          (case set_property preferences key val of
             Inl e \<Rightarrow> Inl e
           | Inr preferences' \<Rightarrow> Inr (savePreferences preferences' ls)))"

subsection \<open>Strings of the task controller\<close>

text \<open>
  \<^verbatim>\<open>trim\<close> removes the white space and the line terminators of the language from both
  ends of a string. They are listed here in UTF-8.
\<close>

definition white_space :: "string list" where
  "white_space =
     [[CHR 0x09], [CHR 0x0A], [CHR 0x0B], [CHR 0x0C], [CHR 0x0D], [CHR 0x20],
      [CHR 0xC2, CHR 0xA0], [CHR 0xE1, CHR 0x9A, CHR 0x80],
      [CHR 0xE2, CHR 0x80, CHR 0x80], [CHR 0xE2, CHR 0x80, CHR 0x81],
      [CHR 0xE2, CHR 0x80, CHR 0x82], [CHR 0xE2, CHR 0x80, CHR 0x83],
      [CHR 0xE2, CHR 0x80, CHR 0x84], [CHR 0xE2, CHR 0x80, CHR 0x85],
      [CHR 0xE2, CHR 0x80, CHR 0x86], [CHR 0xE2, CHR 0x80, CHR 0x87],
      [CHR 0xE2, CHR 0x80, CHR 0x88], [CHR 0xE2, CHR 0x80, CHR 0x89],
      [CHR 0xE2, CHR 0x80, CHR 0x8A], [CHR 0xE2, CHR 0x80, CHR 0xA8],
      [CHR 0xE2, CHR 0x80, CHR 0xA9], [CHR 0xE2, CHR 0x80, CHR 0xAF],
      [CHR 0xE2, CHR 0x81, CHR 0x9F], [CHR 0xE3, CHR 0x80, CHR 0x80],
      [CHR 0xEF, CHR 0xBB, CHR 0xBF]]"

function strip_leading :: "string list \<Rightarrow> string \<Rightarrow> string" where
  "strip_leading ws s =
     (case find (\<lambda>w. w \<noteq> [] \<and> take (length w) s = w) ws of
        Some w \<Rightarrow> strip_leading ws (drop (length w) s)
      | None \<Rightarrow> s)"
  by pat_completeness auto
termination
proof (relation "measure (\<lambda>p. length (snd p))")
  show "wf (measure (\<lambda>p. length (snd p)))"
    by simp
next
  fix ws :: "string list" and s w :: string
  assume "find (\<lambda>w. w \<noteq> [] \<and> take (length w) s = w) ws = Some w"
  then have w: "w \<noteq> []" "take (length w) s = w"
    by (auto simp: find_Some_iff)
  then have "s \<noteq> []"
    by auto
  with w show "((ws, drop (length w) s), (ws, s)) \<in> measure (\<lambda>p. length (snd p))"
    by simp
qed

declare strip_leading.simps [simp del]

definition trimStart :: "string \<Rightarrow> string" where
  "trimStart s = strip_leading white_space s"

definition trimEnd :: "string \<Rightarrow> string" where
  "trimEnd s = rev (strip_leading (map rev white_space) (rev s))"

definition trim :: "string \<Rightarrow> string" where
  "trim s = trimEnd (trimStart s)"

text \<open>
  \<^verbatim>\<open>escapeHtml\<close> makes the text the content of a fresh element and reads the markup of
  that element back. The document writes a text node with the ampersand, the no-break
  space and the two angle brackets replaced by their character references.
\<close>

function escape_text :: "string \<Rightarrow> string" where
  "escape_text [] = []"
| "escape_text (c # cs) =
     (if c = CHR ''&'' then ''&amp;'' @ escape_text cs
      else if c = CHR ''<'' then ''&lt;'' @ escape_text cs
      else if c = CHR ''>'' then ''&gt;'' @ escape_text cs
      else if c = CHR 0xC2 \<and> take 1 cs = [CHR 0xA0] then ''&nbsp;'' @ escape_text (drop 1 cs)
      else c # escape_text cs)"
  by pat_completeness auto
termination
  by (relation "measure length") auto

definition escapeHtml :: "string \<Rightarrow> string" where
  "escapeHtml text = escape_text text"

subsection \<open>The task controller\<close>

text \<open>
  A task as \<^verbatim>\<open>createTask\<close> builds it. The creation time is a Date object in a task made
  in this session and whatever the store held in a task loaded from it.
\<close>

record task =
  id' :: string
  title :: string
  description :: string
  completed :: bool
  createdAt :: jsval

definition task_object :: "task \<Rightarrow> jsval" where
  "task_object t =
     JObj [(''id'', JStr (id' t)), (''title'', JStr (title t)),
           (''description'', JStr (description t)), (''completed'', JBool (completed t)),
           (''createdAt'', createdAt t)]"

text \<open>
  The part of the document the controller works on: the items of the task list (each with
  its \<^verbatim>\<open>data-id\<close>, its class names and the markup it was given), the empty-state
  indicator, the filter buttons, the hide-completed checkbox and the notification banner.
  A callback handed to \<^verbatim>\<open>setTimeout\<close> waits in \<open>timers\<close> with its delay.
\<close>

record task_item =
  data_id :: string
  classList :: "string list"
  innerHTML :: string

datatype callback = RemoveTask string | RenderTasks | HideNotification

record task_manager =
  tasks :: "task list"
  currentFilter :: string
  hideCompletedToggle_checked :: bool
  taskList :: "task_item list"
  emptyState_hidden :: bool
  filterButtons :: "(string \<times> bool) list"
  notificationText :: string
  notification_show :: bool
  timers :: "(nat \<times> callback) list"
  storage :: local_storage

definition TaskManager_saveTasks :: "task_manager \<Rightarrow> task_manager" where
  "TaskManager_saveTasks tm =
     tm\<lparr>storage := snd (saveTasks (JArr (map task_object (tasks tm))) (storage tm))\<rparr>"

definition filterTasks :: "task_manager \<Rightarrow> task list" where
  "filterTasks tm =
     (if currentFilter tm = ''active'' then filter (\<lambda>task. \<not> completed task) (tasks tm)
      else if currentFilter tm = ''completed'' then filter (\<lambda>task. completed task) (tasks tm)
      else if hideCompletedToggle_checked tm
        then filter (\<lambda>task. \<not> completed task) (tasks tm)
      else tasks tm)"

definition markup_checkbox :: string where
  \<open>markup_checkbox =
     [CHR 0x0A]
     @ ''      <label class="task-checkbox">''
     @ [CHR 0x0A]
     @ ''        <input type="checkbox" ''\<close>

definition markup_title :: string where
  \<open>markup_title =
     ''>''
     @ [CHR 0x0A]
     @ ''        <span class="custom-checkbox">''
     @ [CHR 0x0A]
     @ ''          <i class="fas fa-check"></i>''
     @ [CHR 0x0A]
     @ ''        </span>''
     @ [CHR 0x0A]
     @ ''      </label>''
     @ [CHR 0x0A]
     @ ''      <div class="task-content">''
     @ [CHR 0x0A]
     @ ''        <div class="task-header">''
     @ [CHR 0x0A]
     @ ''          <h3 class="task-title">''\<close>

definition markup_actions :: string where
  \<open>markup_actions =
     ''</h3>''
     @ [CHR 0x0A]
     @ ''          <div class="task-actions">''
     @ [CHR 0x0A]
     @ ''            <button class="delete-btn" aria-label="Delete task">''
     @ [CHR 0x0A]
     @ ''              <i class="fas fa-trash"></i>''
     @ [CHR 0x0A]
     @ ''            </button>''
     @ [CHR 0x0A]
     @ ''          </div>''
     @ [CHR 0x0A]
     @ ''        </div>''
     @ [CHR 0x0A]
     @ ''        ''\<close>

definition markup_end :: string where
  \<open>markup_end =
     [CHR 0x0A]
     @ ''      </div>''
     @ [CHR 0x0A]
     @ ''    ''\<close>

definition task_markup :: "task \<Rightarrow> string" where
  \<open>task_markup task =
     markup_checkbox @ (if completed task then ''checked'' else [])
     @ markup_title @ escapeHtml (title task)
     @ markup_actions
     @ (if description task \<noteq> []
        then ''<p class="task-description">'' @ escapeHtml (description task) @ ''</p>''
        else [])
     @ markup_end\<close>

definition createTaskElement :: "task \<Rightarrow> task_item" where
  "createTaskElement task =
     \<lparr>data_id = id' task,
      classList = (if completed task then [''task-item'', ''completed''] else [''task-item'']),
      innerHTML = task_markup task\<rparr>"

definition renderTasks :: "task_manager \<Rightarrow> task_manager" where
  "renderTasks tm =
     (let filteredTasks = filterTasks tm
      in tm\<lparr>taskList := map createTaskElement filteredTasks,
            emptyState_hidden := (length filteredTasks \<noteq> 0)\<rparr>)"

definition showNotification :: "string \<Rightarrow> task_manager \<Rightarrow> task_manager" where
  "showNotification message tm =
     tm\<lparr>notificationText := message, notification_show := True,
        timers := timers tm @ [(3000, HideNotification)]\<rparr>"

text \<open>
  \<^verbatim>\<open>createTask\<close> reads the clock twice: \<open>now\<close> is the reading of \<^verbatim>\<open>Date.now()\<close>
  and \<open>created\<close> the time value of \<^verbatim>\<open>new Date()\<close>.
\<close>

definition createTask :: "string \<Rightarrow> string \<Rightarrow> int \<Rightarrow> int \<Rightarrow> task_manager \<Rightarrow> task_manager" where
  "createTask ttl descr now created tm =
     (let newTask = \<lparr>id' = Number_toString (of_int now), title = trim ttl,
                      description = trim descr, completed = False,
                      createdAt = JDate created\<rparr>
      in showNotification ''Task added successfully!''
           (renderTasks (TaskManager_saveTasks (tm\<lparr>tasks := newTask # tasks tm\<rparr>))))"

fun findIndex :: "('a \<Rightarrow> bool) \<Rightarrow> 'a list \<Rightarrow> nat option" where
  "findIndex P [] = None"
| "findIndex P (x # xs) =
     (if P x then Some 0 else (case findIndex P xs of None \<Rightarrow> None | Some i \<Rightarrow> Some (Suc i)))"

definition toggleTaskCompletion :: "string \<Rightarrow> task_manager \<Rightarrow> task_manager" where
  "toggleTaskCompletion taskId tm =
     (case findIndex (\<lambda>task. id' task = taskId) (tasks tm) of
        None \<Rightarrow> tm
      | Some taskIndex \<Rightarrow>
          (let old = tasks tm ! taskIndex;
               tm1 = tm\<lparr>tasks := (tasks tm)[taskIndex := old\<lparr>completed := \<not> completed old\<rparr>]\<rparr>;
               tm2 = TaskManager_saveTasks tm1;
               tm3 = tm2\<lparr>timers := timers tm2 @ [(500, RenderTasks)]\<rparr>;
               status = (if completed (tasks tm3 ! taskIndex) then ''completed'' else ''active'')
           in showNotification (''Task marked as '' @ status @ ''!'') tm3))"

text \<open>
  \<^verbatim>\<open>deleteTask\<close> looks the item up with the selector
  \<^verbatim>\<open>.task-item[data-id="..."]\<close>, the id spliced in between the quotes. For an id without
  a quote, a backslash, a line break or a null character this selects the first item of
  that class whose \<^verbatim>\<open>data-id\<close> is the id. An id with one of these characters changes
  the selector itself; the simplest of them make it ill-formed, and the query raises a
  syntax error, which is what the model answers for all of them. The items of the task
  list are taken to be the only elements of the class in the document.
\<close>

definition selector_safe :: "string \<Rightarrow> bool" where
  "selector_safe s =
     list_all (\<lambda>c. c \<noteq> CHR 0x22 \<and> c \<noteq> CHR 0x5C \<and> c \<noteq> CHR 0x0A \<and> c \<noteq> CHR 0x0C
                  \<and> c \<noteq> CHR 0x0D \<and> c \<noteq> CHR 0x00) s"

definition querySelector :: "task_item list \<Rightarrow> string \<Rightarrow> error + nat option" where
  "querySelector its taskId =
     (if selector_safe taskId
      then Inr (findIndex (\<lambda>it. ''task-item'' \<in> set (classList it) \<and> data_id it = taskId) its)
      else Inl SyntaxError)"

definition add_class :: "string \<Rightarrow> task_item \<Rightarrow> task_item" where
  "add_class c it = (if c \<in> set (classList it) then it else it\<lparr>classList := classList it @ [c]\<rparr>)"

text \<open>
  The result of \<^verbatim>\<open>deleteTask\<close> is the state it leaves and the error it raised, if any.
\<close>

definition deleteTask :: "string \<Rightarrow> task_manager \<Rightarrow> task_manager \<times> error option" where
  "deleteTask taskId tm =
     (case querySelector (taskList tm) taskId of
        Inl e \<Rightarrow> (tm, Some e)
      | Inr None \<Rightarrow> (tm, None)
      | Inr (Some i) \<Rightarrow>
          (let tm1 = tm\<lparr>taskList := (taskList tm)[i := add_class ''removing'' (taskList tm ! i)]\<rparr>;
               tm2 = tm1\<lparr>timers := timers tm1 @ [(300, RemoveTask taskId)]\<rparr>
           in (showNotification ''Task deleted!'' tm2, None)))"

definition updateFilterButtons :: "task_manager \<Rightarrow> task_manager" where
  "updateFilterButtons tm =
     tm\<lparr>filterButtons := map (\<lambda>btn. (fst btn, fst btn = currentFilter tm)) (filterButtons tm)\<rparr>"

definition setFilter :: "string \<Rightarrow> task_manager \<Rightarrow> task_manager" where
  "setFilter flt tm = renderTasks (updateFilterButtons (tm\<lparr>currentFilter := flt\<rparr>))"

text \<open>The callbacks, and a pending timer firing: its callback runs and it is gone.\<close>

definition run_callback :: "callback \<Rightarrow> task_manager \<Rightarrow> task_manager" where
  "run_callback cb tm =
     (case cb of
        RemoveTask taskId \<Rightarrow>
          renderTasks (TaskManager_saveTasks
            (tm\<lparr>tasks := filter (\<lambda>task. id' task \<noteq> taskId) (tasks tm)\<rparr>))
      | RenderTasks \<Rightarrow> renderTasks tm
      | HideNotification \<Rightarrow> tm\<lparr>notification_show := False\<rparr>)"

definition fire_timer :: "nat \<Rightarrow> task_manager \<Rightarrow> task_manager" where
  "fire_timer i tm =
     (if i < length (timers tm)
      then run_callback (snd (timers tm ! i)) (tm\<lparr>timers := take i (timers tm) @ drop (Suc i) (timers tm)\<rparr>)
      else tm)"

text \<open>
  The two handlers of \<^verbatim>\<open>setupEventListeners\<close> that do more than call a method. A
  submitted form makes a task when its title is not empty after trimming. A change of the
  hide-completed checkbox stores the new state of the checkbox and renders; if storing
  raises, the handler ends there.
\<close>

definition submit :: "string \<Rightarrow> string \<Rightarrow> int \<Rightarrow> int \<Rightarrow> task_manager \<Rightarrow> task_manager" where
  "submit ttl descr now created tm =
     (if trim ttl \<noteq> [] then createTask ttl descr now created tm else tm)"

definition hideCompleted_change :: "bool \<Rightarrow> task_manager \<Rightarrow> task_manager" where
  "hideCompleted_change checked tm =
     (let tm1 = tm\<lparr>hideCompletedToggle_checked := checked\<rparr>
      in case updatePreference ''hideCompleted'' (JBool checked) (storage tm1) of
           Inl e \<Rightarrow> tm1
         | Inr r \<Rightarrow> renderTasks (tm1\<lparr>storage := snd r\<rparr>))"

text \<open>
  What happens to a controller: the three operations on tasks, the handlers of the form,
  of the filter buttons and of the checkbox, and a timer firing. Timers may fire in any
  order here, which covers the order of their delays.
\<close>

datatype event =
    CreateTask string string int int
  | ToggleTaskCompletion string
  | DeleteTask string
  | Submit string string int int
  | SetFilter string
  | HideCompletedChange bool
  | TimerFires nat

fun step :: "event \<Rightarrow> task_manager \<Rightarrow> task_manager" where
  "step (CreateTask ttl descr now created) tm = createTask ttl descr now created tm"
| "step (ToggleTaskCompletion taskId) tm = toggleTaskCompletion taskId tm"
| "step (DeleteTask taskId) tm = fst (deleteTask taskId tm)"
| "step (Submit ttl descr now created) tm = submit ttl descr now created tm"
| "step (SetFilter flt) tm = setFilter flt tm"
| "step (HideCompletedChange checked) tm = hideCompleted_change checked tm"
| "step (TimerFires i) tm = fire_timer i tm"

fun run :: "event list \<Rightarrow> task_manager \<Rightarrow> task_manager" where
  "run [] tm = tm"
| "run (e # es) tm = run es (step e tm)"

text \<open>
  The controller as its constructor leaves it over an empty store: no tasks, the filter
  \<^verbatim>\<open>all\<close>, the checkbox clear, the empty-state indicator showing. The page has the
  three filter buttons.
\<close>

definition fresh_manager :: task_manager where
  "fresh_manager =
     \<lparr>tasks = [], currentFilter = ''all'', hideCompletedToggle_checked = False,
      taskList = [], emptyState_hidden = False,
      filterButtons = [(''all'', True), (''active'', False), (''completed'', False)],
      notificationText = [], notification_show = False, timers = [],
      storage = \<lparr>items = [], quota = 5242880\<rparr>\<rparr>"


text \<open>The clock reading an event makes an id from, if it makes a task.\<close>

fun creates :: "event \<Rightarrow> int option" where
  "creates (CreateTask ttl descr now created) = Some now"
| "creates (Submit ttl descr now created) = (if trim ttl \<noteq> [] then Some now else None)"
| "creates e = None"

definition create_stamps :: "event list \<Rightarrow> int list" where
  "create_stamps es = concat (map (\<lambda>e. case creates e of Some now \<Rightarrow> [now] | None \<Rightarrow> []) es)"

subsection \<open>Reading markup and stored text back\<close>









section \<open>Properties of the numerals\<close>

lemma digits_table:
  "list_all (\<lambda>k. digit_val (''0123456789'' ! k) = k \<and> is_digit (''0123456789'' ! k)
      \<and> (''0123456789'' ! k = CHR ''0'' \<longrightarrow> k = 0)) [0..<10]"
  by (simp add: upt_rec digit_val_def is_digit_def)

lemma digit_below_ten:
  assumes "k < 10"
  shows "digit_val (''0123456789'' ! k) = k" "is_digit (''0123456789'' ! k)"
    "''0123456789'' ! k = CHR ''0'' \<Longrightarrow> k = 0"
  using digits_table assms unfolding list_all_iff by auto

lemma digit_val_digit_char: "digit_val (digit_char d) = d mod 10"
  by (simp add: digit_char_def digit_below_ten)

lemma is_digit_digit_char: "is_digit (digit_char d)"
  by (simp add: digit_char_def digit_below_ten)

lemma read_digits_snoc: "read_digits acc (xs @ [c]) = read_digits acc xs * 10 + digit_val c"
  by (induction xs arbitrary: acc) auto

lemma read_show_nat: "read_digits 0 (show_nat n) = n"
proof (induction n rule: show_nat.induct)
  case (1 n)
  show ?case
  proof (cases "n < 10")
    case True
    then show ?thesis
      by (simp add: show_nat.simps [of n] digit_val_digit_char)
  next
    case False
    with 1 show ?thesis
      by (simp add: show_nat.simps [of n] read_digits_snoc digit_val_digit_char)
  qed
qed

lemma show_nat_digits: "list_all is_digit (show_nat n)"
proof (induction n rule: show_nat.induct)
  case (1 n)
  then show ?case
    by (cases "n < 10") (simp_all add: show_nat.simps [of n] is_digit_digit_char)
qed

lemma show_nat_nonempty: "show_nat n \<noteq> []"
  by (cases "n < 10") (simp_all add: show_nat.simps [of n])

lemma show_nat_inj: "show_nat a = show_nat b \<Longrightarrow> a = b"
  by (metis read_show_nat)

lemma show_int_inj: "show_int a = show_int b \<Longrightarrow> a = b"
proof -
  assume eq: "show_int a = show_int b"
  have minus: "\<not> is_digit (CHR ''-'')"
    by (simp add: is_digit_def)
  have hd_digit: "is_digit (hd (show_nat n))" for n
    using show_nat_digits [of n] show_nat_nonempty [of n]
    by (cases "show_nat n") auto
  have neq: "''-'' @ show_nat m \<noteq> show_nat n" for m n
    using hd_digit [of n] minus show_nat_nonempty [of n]
    by (cases "show_nat n") auto
  show "a = b"
  proof (cases "a < 0"; cases "b < 0")
    assume "a < 0" "b < 0"
    with eq have "show_nat (nat (- a)) = show_nat (nat (- b))"
      by (simp add: show_int_def)
    then have "nat (- a) = nat (- b)" by (rule show_nat_inj)
    with \<open>a < 0\<close> \<open>b < 0\<close> show ?thesis by simp
  next
    assume "a < 0" "\<not> b < 0"
    with eq neq show ?thesis by (simp add: show_int_def)
  next
    assume "\<not> a < 0" "b < 0"
    with eq neq [of "nat (- b)" "nat a"] show ?thesis by (simp add: show_int_def)
  next
    assume "\<not> a < 0" "\<not> b < 0"
    with eq have "show_nat (nat a) = show_nat (nat b)"
      by (simp add: show_int_def)
    then have "nat a = nat b" by (rule show_nat_inj)
    with \<open>\<not> a < 0\<close> \<open>\<not> b < 0\<close> show ?thesis by simp
  qed
qed

lemma Number_toString_int:
  assumes "\<bar>i\<bar> < 10 ^ 21"
  shows "Number_toString (of_int i) = show_int i"
proof (cases "i < 0")
  case True
  have "(of_int (- i) :: rat) < 10 ^ 21"
    using assms True by (metis abs_of_neg of_int_less_numeral_power_cancel_iff)
  then show ?thesis
    using True by (simp add: Number_toString_def Number_toString_pos_def show_int_def)
next
  case False
  have "(of_int i :: rat) < 10 ^ 21"
    using assms False by (metis abs_of_nonneg not_less of_int_less_numeral_power_cancel_iff)
  then show ?thesis
    using False by (simp add: Number_toString_def Number_toString_pos_def show_int_def)
qed

lemma valid_time_bound: "valid_time t \<Longrightarrow> \<bar>t\<bar> < 10 ^ 21"
  by (simp add: valid_time_def)

section \<open>Properties of the codec\<close>

subsection \<open>Strings\<close>










subsection \<open>Numbers\<close>














subsection \<open>One step of the value parser\<close>















subsection \<open>Objects read back in their order\<close>







subsection \<open>Reading back what was written\<close>


lemma length_SerializeJSONArray: "length (SerializeJSONArray vs) = length vs"
  by (induction vs) simp_all








subsection \<open>The parser and its fuel\<close>

text \<open>
  Every successful call of the parser consumes input, so fuel of more than twice the length
  of the text is never used up: \<open>JSON.parse\<close> answers with a value or with a syntax
  error.
\<close>

lemma length_skip_ws: "length (skip_ws s) \<le> length s"
  by (simp add: skip_ws_def length_dropWhile_le)

lemma skip_ws_Cons_length: "skip_ws s = c # cs \<Longrightarrow> length cs < length s"
  using length_skip_ws [of s] by simp

lemma parse_string_chars_shorter:
  "parse_string_chars cs = Inr (str, rest) \<Longrightarrow> length rest < length cs"
proof (induction "length cs" arbitrary: cs str rest rule: less_induct)
  case less
  have ih: "length r < length t"
    if "length t < length cs" "parse_string_chars t = Inr (u, r)" for t u r
    using less.hyps that by blast
  from less.prems show ?case
    apply (cases cs)
     apply (simp add: parse_string_chars.simps)
    apply (simp add: parse_string_chars.simps
        split: if_splits list.splits option.splits sum.splits prod.splits)
        apply (auto dest!: hex4_length low_surrogate_length dest: ih [rotated])
    done
qed

lemma parse_string_chars_error: "parse_string_chars cs = Inl e \<Longrightarrow> e = SyntaxError"
proof (induction "length cs" arbitrary: cs rule: less_induct)
  case less
  have ih: "e = SyntaxError"
    if "length t < length cs" "parse_string_chars t = Inl e" for t
    using less.hyps that by blast
  from less.prems show ?case
    apply (cases cs)
     apply (simp add: parse_string_chars.simps)
    apply (simp add: parse_string_chars.simps
        split: if_splits list.splits option.splits sum.splits prod.splits)
        apply (auto dest!: hex4_length low_surrogate_length dest: ih [rotated])
    done
qed

lemma parse_fraction_shorter: "parse_fraction s = Inr (fs, r) \<Longrightarrow> length r \<le> length s"
  by (auto simp: parse_fraction_def Let_def split: list.splits if_splits
      intro: le_trans [OF length_dropWhile_le])

lemma parse_exponent_shorter: "parse_exponent s = Inr (ex, r) \<Longrightarrow> length r \<le> length s"
  by (auto simp: parse_exponent_def Let_def split: list.splits if_splits
      intro: le_trans [OF length_dropWhile_le])

lemma dropWhile_shorter: "takeWhile P s \<noteq> [] \<Longrightarrow> length (dropWhile P s) < length s"
  by (cases s) (auto simp: le_imp_less_Suc length_dropWhile_le split: if_splits)

lemma parse_number_shorter:
  assumes "parse_number s = Inr (x, r)"
  shows "length r < length s"
proof -
  define s1 where "s1 = (case s of [] \<Rightarrow> s | c # cs \<Rightarrow> if c = CHR ''-'' then cs else s)"
  have s1: "length s1 \<le> length s"
    by (auto simp: s1_def split: list.splits)
  have "\<exists>fs s2 ex. takeWhile is_digit s1 \<noteq> []
      \<and> parse_fraction (dropWhile is_digit s1) = Inr (fs, s2)
      \<and> parse_exponent s2 = Inr (ex, r)"
  proof (cases s)
    case Nil
    with assms show ?thesis
      by (simp add: parse_number_def)
  next
    case (Cons c cs)
    show ?thesis
    proof (cases "c = CHR ''-''")
      case True
      with Cons have "s1 = cs" by (simp add: s1_def)
      with assms Cons True show ?thesis
        by (simp add: parse_number_def Let_def split: if_splits sum.splits prod.splits)
    next
      case False
      with Cons have "s1 = s" by (simp add: s1_def)
      with assms Cons False show ?thesis
        by (simp add: parse_number_def Let_def split: if_splits sum.splits prod.splits)
    qed
  qed
  then obtain fs s2 ex where
    ds: "takeWhile is_digit s1 \<noteq> []"
    and f: "parse_fraction (dropWhile is_digit s1) = Inr (fs, s2)"
    and e: "parse_exponent s2 = Inr (ex, r)"
    by blast
  have "length r \<le> length s2"
    using e by (rule parse_exponent_shorter)
  also have "\<dots> \<le> length (dropWhile is_digit s1)"
    using f by (rule parse_fraction_shorter)
  also have "\<dots> < length s1"
    using ds by (rule dropWhile_shorter)
  finally show ?thesis
    using s1 by simp
qed

lemma parse_number_error: "parse_number s = Inl e \<Longrightarrow> e = SyntaxError"
  by (auto simp: parse_number_def parse_fraction_def parse_exponent_def Let_def
      split: list.splits if_splits sum.splits prod.splits)

lemma take_eq_length: "take k s = t \<Longrightarrow> length t = k \<Longrightarrow> k \<le> length s"
  by (metis length_take min.cobounded1 min_def order_refl)

lemma parse_rest_shorter:
  "(\<forall>s v rest. parse_value n s = Inr (v, rest) \<longrightarrow> length rest < length s)
   \<and> (\<forall>s vs rest. parse_elements n s = Inr (vs, rest) \<longrightarrow> length rest < length s)
   \<and> (\<forall>s ms rest. parse_members n s = Inr (ms, rest) \<longrightarrow> length rest < length s)"
proof (induction n)
  case 0
  show ?case
    by (simp add: parse_value.simps parse_elements.simps parse_members.simps)
next
  case (Suc n)
  have ihv: "length rest < length s" if "parse_value n s = Inr (v, rest)" for s v rest
    using Suc that by blast
  have ihe: "length rest < length s" if "parse_elements n s = Inr (vs, rest)" for s vs rest
    using Suc that by blast
  have ihm: "length rest < length s" if "parse_members n s = Inr (ms, rest)" for s ms rest
    using Suc that by blast
  have v: "length rest < length s" if a: "parse_value (Suc n) s = Inr (v, rest)" for s v rest
  proof (cases "skip_ws s")
    case Nil
    with a show ?thesis by (simp add: parse_value.simps)
  next
    case (Cons c cs)
    then have cs: "length cs < length s"
      by (rule skip_ws_Cons_length)
    have ws: "length (drop 1 (skip_ws cs)) < length s"
      using cs length_skip_ws [of cs] by simp
    from a Cons have
      "(\<exists>str. parse_string_chars cs = Inr (str, rest))
       \<or> rest = drop 1 (skip_ws cs)
       \<or> (\<exists>vs. parse_elements n cs = Inr (vs, rest))
       \<or> (\<exists>ms. parse_members n cs = Inr (ms, rest))
       \<or> (rest = drop 4 (c # cs) \<and> (take 4 (c # cs) = ''null'' \<or> take 4 (c # cs) = ''true''))
       \<or> (rest = drop 5 (c # cs) \<and> take 5 (c # cs) = ''false'')
       \<or> (\<exists>x. parse_number (c # cs) = Inr (x, rest))"
      by (simp add: parse_value.simps split: if_splits sum.splits prod.splits)
    then consider
      (str) str where "parse_string_chars cs = Inr (str, rest)"
      | (empty) "rest = drop 1 (skip_ws cs)"
      | (arr) vs where "parse_elements n cs = Inr (vs, rest)"
      | (obj) ms where "parse_members n cs = Inr (ms, rest)"
      | (lit4) "rest = drop 4 (c # cs)" "take 4 (c # cs) = ''null'' \<or> take 4 (c # cs) = ''true''"
      | (lit5) "rest = drop 5 (c # cs)" "take 5 (c # cs) = ''false''"
      | (num) x where "parse_number (c # cs) = Inr (x, rest)"
      by blast
    then show ?thesis
    proof cases
      case str
      then show ?thesis using parse_string_chars_shorter cs by fastforce
    next
      case empty
      then show ?thesis using ws by simp
    next
      case arr
      then show ?thesis using ihe cs by fastforce
    next
      case obj
      then show ?thesis using ihm cs by fastforce
    next
      case lit4
      then show ?thesis
        using take_eq_length [of 4 "c # cs"] cs by auto
    next
      case lit5
      then show ?thesis
        using take_eq_length [of 5 "c # cs"] cs by auto
    next
      case num
      then have "length rest < length (c # cs)" by (rule parse_number_shorter)
      with cs show ?thesis by simp
    qed
  qed
  have e: "length rest < length s" if a: "parse_elements (Suc n) s = Inr (vs, rest)" for s vs rest
  proof -
    from a obtain v r where v: "parse_value n s = Inr (v, r)"
      by (auto simp: parse_elements.simps split: sum.splits)
    then have r: "length r < length s"
      by (rule ihv)
    from a v obtain c cs where c: "skip_ws r = c # cs"
      by (cases "skip_ws r") (auto simp: parse_elements.simps)
    then have cs: "length cs < length r"
      by (rule skip_ws_Cons_length)
    from a v c have "(\<exists>ws. parse_elements n cs = Inr (ws, rest)) \<or> rest = cs"
      by (auto simp: parse_elements.simps split: if_splits sum.splits)
    then show ?thesis
    proof
      assume "\<exists>ws. parse_elements n cs = Inr (ws, rest)"
      then obtain ws where "parse_elements n cs = Inr (ws, rest)" ..
      then have "length rest < length cs" by (rule ihe)
      with cs r show ?thesis by simp
    next
      assume "rest = cs"
      with cs r show ?thesis by simp
    qed
  qed
  have m: "length rest < length s" if a: "parse_members (Suc n) s = Inr (ms, rest)" for s ms rest
  proof -
    from a obtain q qs where q: "skip_ws s = q # qs"
      by (cases "skip_ws s") (auto simp: parse_members.simps)
    then have qs: "length qs < length s"
      by (rule skip_ws_Cons_length)
    from a q obtain k r where k: "parse_string_chars qs = Inr (k, r)"
      by (auto simp: parse_members.simps split: if_splits sum.splits)
    then have r: "length r < length qs"
      by (rule parse_string_chars_shorter)
    from a q k obtain v r' where v: "parse_value n (drop 1 (skip_ws r)) = Inr (v, r')"
      by (auto simp: parse_members.simps split: if_splits sum.splits)
    then have "length r' < length (drop 1 (skip_ws r))"
      by (rule ihv)
    then have r': "length r' < length r"
      using length_skip_ws [of r] by simp
    from a q k v obtain c cs where c: "skip_ws r' = c # cs"
      by (cases "skip_ws r'") (auto simp: parse_members.simps split: if_splits)
    then have cs: "length cs < length r'"
      by (rule skip_ws_Cons_length)
    from a q k v c have "(\<exists>ws. parse_members n cs = Inr (ws, rest)) \<or> rest = cs"
      by (auto simp: parse_members.simps split: if_splits sum.splits)
    then show ?thesis
    proof
      assume "\<exists>ws. parse_members n cs = Inr (ws, rest)"
      then obtain ws where "parse_members n cs = Inr (ws, rest)" ..
      then have "length rest < length cs" by (rule ihm)
      with cs r' r qs show ?thesis by simp
    next
      assume "rest = cs"
      with cs r' r qs show ?thesis by simp
    qed
  qed
  from v e m show ?case
    by blast
qed

lemma parse_fuel:
  "(\<forall>s. 2 * length s < n \<longrightarrow> parse_value n s \<noteq> Inl OutOfFuel)
   \<and> (\<forall>s. 2 * length s + 1 < n \<longrightarrow> parse_elements n s \<noteq> Inl OutOfFuel)
   \<and> (\<forall>s. 2 * length s + 1 < n \<longrightarrow> parse_members n s \<noteq> Inl OutOfFuel)"
proof (induction n)
  case 0
  show ?case by simp
next
  case (Suc n)
  have ihv: "parse_value n s \<noteq> Inl OutOfFuel" if "2 * length s < n" for s
    using Suc that by blast
  have ihe: "parse_elements n s \<noteq> Inl OutOfFuel" if "2 * length s + 1 < n" for s
    using Suc that by blast
  have ihm: "parse_members n s \<noteq> Inl OutOfFuel" if "2 * length s + 1 < n" for s
    using Suc that by blast
  have str: "parse_string_chars cs \<noteq> Inl OutOfFuel" for cs
    using parse_string_chars_error [of cs OutOfFuel] by auto
  have num: "parse_number cs \<noteq> Inl OutOfFuel" for cs
    using parse_number_error [of cs OutOfFuel] by auto
  have v: "parse_value (Suc n) s \<noteq> Inl OutOfFuel" if b: "2 * length s < Suc n" for s
  proof
    assume a: "parse_value (Suc n) s = Inl OutOfFuel"
    then obtain c cs where c: "skip_ws s = c # cs"
      by (cases "skip_ws s") (auto simp: parse_value.simps)
    then have cs: "length cs < length s"
      by (rule skip_ws_Cons_length)
    from a c have "parse_string_chars cs = Inl OutOfFuel \<or> parse_elements n cs = Inl OutOfFuel
        \<or> parse_members n cs = Inl OutOfFuel \<or> parse_number (c # cs) = Inl OutOfFuel"
      by (simp add: parse_value.simps split: if_splits sum.splits prod.splits)
    moreover have "2 * length cs + 1 < n"
      using b cs by simp
    ultimately show False
      using str num ihe ihm by blast
  qed
  have e: "parse_elements (Suc n) s \<noteq> Inl OutOfFuel" if b: "2 * length s + 1 < Suc n" for s
  proof
    assume a: "parse_elements (Suc n) s = Inl OutOfFuel"
    have "parse_value n s \<noteq> Inl OutOfFuel"
      using b by (intro ihv) simp
    with a obtain v r where v: "parse_value n s = Inr (v, r)"
      by (cases "parse_value n s") (auto simp: parse_elements.simps)
    then have r: "length r < length s"
      using parse_rest_shorter by blast
    from a v obtain c cs where c: "skip_ws r = c # cs"
      by (cases "skip_ws r") (auto simp: parse_elements.simps)
    then have cs: "length cs < length r"
      by (rule skip_ws_Cons_length)
    from a v c have "parse_elements n cs = Inl OutOfFuel"
      by (simp add: parse_elements.simps split: if_splits sum.splits prod.splits)
    moreover have "2 * length cs + 1 < n"
      using b cs r by simp
    ultimately show False
      using ihe by blast
  qed
  have m: "parse_members (Suc n) s \<noteq> Inl OutOfFuel" if b: "2 * length s + 1 < Suc n" for s
  proof
    assume a: "parse_members (Suc n) s = Inl OutOfFuel"
    then obtain q qs where q: "skip_ws s = q # qs"
      by (cases "skip_ws s") (auto simp: parse_members.simps)
    then have qs: "length qs < length s"
      by (rule skip_ws_Cons_length)
    from a q str [of qs] obtain k r where k: "parse_string_chars qs = Inr (k, r)"
      by (cases "parse_string_chars qs") (auto simp: parse_members.simps split: if_splits)
    then have r: "length r < length qs"
      by (rule parse_string_chars_shorter)
    have short: "length (drop 1 (skip_ws r)) \<le> length r"
      using length_skip_ws [of r] by simp
    have "parse_value n (drop 1 (skip_ws r)) \<noteq> Inl OutOfFuel"
      using b qs r short by (intro ihv) simp
    with a q k obtain v r' where v: "parse_value n (drop 1 (skip_ws r)) = Inr (v, r')"
      by (cases "parse_value n (drop 1 (skip_ws r))")
        (auto simp: parse_members.simps split: if_splits)
    then have "length r' < length (drop 1 (skip_ws r))"
      using parse_rest_shorter by blast
    with short have r': "length r' < length r"
      by simp
    from a q k v obtain c cs where c: "skip_ws r' = c # cs"
      by (cases "skip_ws r'") (auto simp: parse_members.simps split: if_splits)
    then have cs: "length cs < length r'"
      by (rule skip_ws_Cons_length)
    from a q k v c have "parse_members n cs = Inl OutOfFuel"
      by (simp add: parse_members.simps split: if_splits sum.splits prod.splits)
    moreover have "2 * length cs + 1 < n"
      using b cs r' r qs by simp
    ultimately show False
      using ihm by blast
  qed
  from v e m show ?case
    by blast
qed

lemma JSON_parse_fuel: "JSON_parse s \<noteq> Inl OutOfFuel"
proof -
  have "parse_value (2 * length s + 1) s \<noteq> Inl OutOfFuel"
    using parse_fuel [of "2 * length s + 1"] by simp
  then show ?thesis
    by (auto simp: JSON_parse_def split: sum.splits)
qed

lemma parse_errors:
  "(\<forall>s e. parse_value n s = Inl e \<longrightarrow> e = SyntaxError \<or> e = OutOfFuel)
   \<and> (\<forall>s e. parse_elements n s = Inl e \<longrightarrow> e = SyntaxError \<or> e = OutOfFuel)
   \<and> (\<forall>s e. parse_members n s = Inl e \<longrightarrow> e = SyntaxError \<or> e = OutOfFuel)"
proof (induction n)
  case 0
  show ?case
    by (simp add: parse_value.simps parse_elements.simps parse_members.simps)
next
  case (Suc n)
  have ihv: "e = SyntaxError \<or> e = OutOfFuel" if "parse_value n s = Inl e" for s e
    using Suc that by blast
  have ihe: "e = SyntaxError \<or> e = OutOfFuel" if "parse_elements n s = Inl e" for s e
    using Suc that by blast
  have ihm: "e = SyntaxError \<or> e = OutOfFuel" if "parse_members n s = Inl e" for s e
    using Suc that by blast
  have v: "e = SyntaxError \<or> e = OutOfFuel" if a: "parse_value (Suc n) s = Inl e" for s e
  proof (cases "skip_ws s")
    case Nil
    with a show ?thesis by (simp add: parse_value.simps)
  next
    case (Cons c cs)
    with a have "e = SyntaxError \<or> parse_string_chars cs = Inl e \<or> parse_elements n cs = Inl e
        \<or> parse_members n cs = Inl e \<or> parse_number (c # cs) = Inl e"
      by (simp add: parse_value.simps split: if_splits sum.splits prod.splits)
    then show ?thesis
      using parse_string_chars_error parse_number_error ihe ihm by blast
  qed
  have e: "e = SyntaxError \<or> e = OutOfFuel" if a: "parse_elements (Suc n) s = Inl e" for s e
  proof (cases "parse_value n s")
    case (Inl e')
    with a have "e' = e" by (simp add: parse_elements.simps)
    with Inl show ?thesis using ihv by blast
  next
    case (Inr p)
    obtain v r where p: "p = (v, r)" by (cases p)
    show ?thesis
    proof (cases "skip_ws r")
      case Nil
      with a Inr p show ?thesis by (simp add: parse_elements.simps)
    next
      case (Cons c cs)
      with a Inr p have "e = SyntaxError \<or> parse_elements n cs = Inl e"
        by (simp add: parse_elements.simps split: if_splits sum.splits prod.splits)
      then show ?thesis using ihe by blast
    qed
  qed
  have m: "e = SyntaxError \<or> e = OutOfFuel" if a: "parse_members (Suc n) s = Inl e" for s e
  proof (cases "skip_ws s")
    case Nil
    with a show ?thesis by (simp add: parse_members.simps)
  next
    case (Cons q qs)
    show ?thesis
    proof (cases "parse_string_chars qs")
      case (Inl e')
      with a Cons have "e = SyntaxError \<or> e' = e"
        by (simp add: parse_members.simps split: if_splits)
      with Inl show ?thesis using parse_string_chars_error by blast
    next
      case (Inr p)
      obtain k r where p: "p = (k, r)" by (cases p)
      show ?thesis
      proof (cases "parse_value n (drop 1 (skip_ws r))")
        case (Inl e')
        with a Cons Inr p have "e = SyntaxError \<or> e' = e"
          by (simp add: parse_members.simps split: if_splits)
        with Inl show ?thesis using ihv by blast
      next
        case v: (Inr p')
        obtain w r' where p': "p' = (w, r')" by (cases p')
        show ?thesis
        proof (cases "skip_ws r'")
          case Nil
          with a Cons Inr p v p' show ?thesis
            by (simp add: parse_members.simps split: if_splits)
        next
          case c: (Cons c cs)
          with a Cons Inr p v p' have "e = SyntaxError \<or> parse_members n cs = Inl e"
            by (simp add: parse_members.simps split: if_splits sum.splits prod.splits)
          then show ?thesis using ihm by blast
        qed
      qed
    qed
  qed
  from v e m show ?case
    by blast
qed

lemma JSON_parse_error: "JSON_parse s = Inl e \<Longrightarrow> e = SyntaxError"
proof -
  assume a: "JSON_parse s = Inl e"
  then have "e = SyntaxError \<or> parse_value (2 * length s + 1) s = Inl e"
    by (auto simp: JSON_parse_def split: sum.splits if_splits)
  then have "e = SyntaxError \<or> e = OutOfFuel"
    using parse_errors by blast
  with a JSON_parse_fuel [of s] show "e = SyntaxError"
    by auto
qed

section \<open>Properties of the storage manager\<close>

subsection \<open>Reading the task list\<close>

lemma JSON_parse_not_json: "JSON_parse ''not json'' = Inl SyntaxError"
  by code_simp

text \<open>
  Claim C1 does not hold of the code. \<^verbatim>\<open>getTasks\<close> returns the empty list when the
  key is absent or holds the empty string, and the parsed value when the text parses; but
  it calls \<open>JSON.parse\<close> outside any \<^verbatim>\<open>try\<close> block, unlike \<^verbatim>\<open>getPreferences\<close>
  next to it, so a stored text that does not parse raises the syntax error to the caller.
\<close>

theorem getTasks_throws:
  "getTasks \<lparr>items = [(''taskflow_tasks'', ''not json'')], quota = 5242880\<rparr> = Inl SyntaxError"
  by (simp add: getTasks_def getItem_def storageKey_def JSON_parse_not_json)

subsection \<open>Reading the preferences\<close>

text \<open>
  Claim C7. \<^verbatim>\<open>getPreferences\<close> always returns a value: whatever its \<^verbatim>\<open>try\<close> block
  raises is caught. When the key is absent, and when the stored text does not parse, the
  value is the record of defaults: dark mode on, the accent \<^verbatim>\<open>lilac\<close>, completed tasks
  shown.
\<close>

theorem getPreferences_never_fails:
  "(\<exists>v. getPreferences ls = Inr v)
   \<and> (getItem ls preferenceKey = None \<longrightarrow> getPreferences ls = Inr default_preferences)
   \<and> (\<forall>s e. getItem ls preferenceKey = Some s \<and> JSON_parse s = Inl e
          \<longrightarrow> getPreferences ls = Inr default_preferences)
   \<and> default_preferences =
       JObj [(''darkMode'', JBool True), (''accentColor'', JStr ''lilac''),
             (''hideCompleted'', JBool False)]"
  by (auto simp: getPreferences_def getPreferences_try_def default_preferences_def
      split: sum.splits option.splits)

theorem getPreferences_never_fails_witness:
  "getItem \<lparr>items = [], quota = 5242880\<rparr> preferenceKey = None
   \<and> getPreferences \<lparr>items = [], quota = 5242880\<rparr> =
       Inr (JObj [(''darkMode'', JBool True), (''accentColor'', JStr ''lilac''),
                  (''hideCompleted'', JBool False)])
   \<and> getItem \<lparr>items = [(''taskflow_preferences'', ''not json'')], quota = 5242880\<rparr> preferenceKey
       = Some ''not json''
   \<and> JSON_parse ''not json'' = Inl SyntaxError
   \<and> getPreferences \<lparr>items = [(''taskflow_preferences'', ''not json'')], quota = 5242880\<rparr> =
       Inr (JObj [(''darkMode'', JBool True), (''accentColor'', JStr ''lilac''),
                  (''hideCompleted'', JBool False)])"
proof -
  let ?empty = "\<lparr>items = [], quota = 5242880\<rparr>"
  let ?bad = "\<lparr>items = [(''taskflow_preferences'', ''not json'')], quota = 5242880\<rparr>"
  have none: "getItem ?empty preferenceKey = None"
    by (simp add: getItem_def)
  have some: "getItem ?bad preferenceKey = Some ''not json''"
    by (simp add: getItem_def preferenceKey_def)
  have d: "default_preferences =
       JObj [(''darkMode'', JBool True), (''accentColor'', JStr ''lilac''),
             (''hideCompleted'', JBool False)]"
    by (rule getPreferences_never_fails [of ?empty, THEN conjunct2, THEN conjunct2, THEN conjunct2])
  have 1: "getPreferences ?empty = Inr default_preferences"
    by (rule getPreferences_never_fails [of ?empty, THEN conjunct2, THEN conjunct1, rule_format, OF none])
  have 2: "getPreferences ?bad = Inr default_preferences"
    by (rule getPreferences_never_fails [of ?bad, THEN conjunct2, THEN conjunct2, THEN conjunct1,
          rule_format, OF conjI [OF some JSON_parse_not_json]])
  show ?thesis
    using none some JSON_parse_not_json 1 2 unfolding d by (intro conjI)
qed

subsection \<open>Saving and reloading the task list\<close>




lemma saveTasks_failed: "\<not> fst (saveTasks v ls) \<Longrightarrow> snd (saveTasks v ls) = ls"
  by (auto simp: saveTasks_def split: sum.splits)












subsection \<open>Updating one preference\<close>



























section \<open>Properties of the task controller\<close>

subsection \<open>What the operations do to the task list\<close>

lemma tasks_renderTasks: "tasks (renderTasks tm) = tasks tm"
  by (simp add: renderTasks_def Let_def)

lemma tasks_showNotification: "tasks (showNotification m tm) = tasks tm"
  by (simp add: showNotification_def)

lemma tasks_saveTasks: "tasks (TaskManager_saveTasks tm) = tasks tm"
  by (simp add: TaskManager_saveTasks_def)

lemma tasks_createTask:
  "tasks (createTask ttl descr now created tm) =
     \<lparr>id' = Number_toString (of_int now), title = trim ttl, description = trim descr,
      completed = False, createdAt = JDate created\<rparr> # tasks tm"
  by (simp add: createTask_def Let_def tasks_renderTasks tasks_showNotification tasks_saveTasks)

lemma findIndex_less: "findIndex P xs = Some i \<Longrightarrow> i < length xs"
  by (induction xs arbitrary: i) (auto split: if_splits option.splits)

lemma findIndex_sat: "findIndex P xs = Some i \<Longrightarrow> P (xs ! i)"
  by (induction xs arbitrary: i) (auto split: if_splits option.splits)


lemma ids_toggle: "map id' (tasks (toggleTaskCompletion taskId tm)) = map id' (tasks tm)"
proof (cases "findIndex (\<lambda>task. id' task = taskId) (tasks tm)")
  case None
  then show ?thesis by (simp add: toggleTaskCompletion_def)
next
  case (Some i)
  then have "i < length (tasks tm)" by (rule findIndex_less)
  then have "map id' ((tasks tm)[i := (tasks tm ! i)\<lparr>completed := \<not> completed (tasks tm ! i)\<rparr>])
      = map id' (tasks tm)"
    by (simp add: map_update list_update_same_conv)
  with Some show ?thesis
    by (simp add: toggleTaskCompletion_def Let_def tasks_showNotification tasks_saveTasks)
qed

lemma tasks_deleteTask: "tasks (fst (deleteTask taskId tm)) = tasks tm"
  by (simp add: deleteTask_def Let_def tasks_showNotification split: sum.splits option.splits)

lemma tasks_setFilter: "tasks (setFilter flt tm) = tasks tm"
  by (simp add: setFilter_def updateFilterButtons_def tasks_renderTasks)

lemma tasks_run_callback:
  "tasks (run_callback cb tm) =
     (case cb of RemoveTask taskId \<Rightarrow> filter (\<lambda>task. id' task \<noteq> taskId) (tasks tm) | _ \<Rightarrow> tasks tm)"
  by (simp add: run_callback_def tasks_renderTasks tasks_saveTasks split: callback.splits)

lemma ids_fire_timer:
  "set (map id' (tasks (fire_timer i tm))) \<subseteq> set (map id' (tasks tm))
   \<and> (distinct (map id' (tasks tm)) \<longrightarrow> distinct (map id' (tasks (fire_timer i tm))))"
  by (cases "snd (timers tm ! i)")
     (auto simp: fire_timer_def tasks_run_callback distinct_map_filter)

lemma tasks_hideCompleted_change: "tasks (hideCompleted_change checked tm) = tasks tm"
  by (simp add: hideCompleted_change_def Let_def tasks_renderTasks split: sum.splits)

lemma ids_step_creates:
  assumes "creates e = Some now"
  shows "map id' (tasks (step e tm)) = Number_toString (of_int now) # map id' (tasks tm)"
  using assms by (cases e) (auto simp: tasks_createTask submit_def split: if_splits)

lemma ids_step_other:
  assumes "creates e = None"
  shows "set (map id' (tasks (step e tm))) \<subseteq> set (map id' (tasks tm))
   \<and> (distinct (map id' (tasks tm)) \<longrightarrow> distinct (map id' (tasks (step e tm))))"
proof (cases e)
  case (CreateTask ttl descr now created)
  with assms show ?thesis by simp
next
  case (ToggleTaskCompletion taskId)
  then show ?thesis by (simp add: ids_toggle)
next
  case (DeleteTask taskId)
  then show ?thesis by (simp add: tasks_deleteTask)
next
  case (Submit ttl descr now created)
  with assms show ?thesis by (simp add: submit_def split: if_splits)
next
  case (SetFilter flt)
  then show ?thesis by (simp add: tasks_setFilter)
next
  case (HideCompletedChange checked)
  then show ?thesis by (simp add: tasks_hideCompleted_change)
next
  case (TimerFires i)
  then show ?thesis using ids_fire_timer [of i tm] by simp
qed

subsection \<open>Uniqueness of ids\<close>

text \<open>
  Claim C3, as the code has it. The id of a new task is the numeral of the clock reading,
  so two tasks made within one millisecond share it: the ids of a reachable list need not
  be distinct (\<open>ids_collide_counterexample\<close>). What holds: starting from a list with
  distinct ids, every sequence of \<^verbatim>\<open>createTask\<close>, \<^verbatim>\<open>toggleTaskCompletion\<close>,
  \<^verbatim>\<open>deleteTask\<close>, form submissions, filter and checkbox changes and timers keeps the
  ids distinct, provided the clock readings at which tasks are made are valid time values,
  differ from each other, and none of them has its numeral among the ids of the starting
  list.
\<close>

theorem ids_stay_distinct:
  assumes "distinct (map id' (tasks tm))"
    and "distinct (create_stamps es)"
    and "list_all valid_time (create_stamps es)"
    and "list_all (\<lambda>n. show_int n \<notin> set (map id' (tasks tm))) (create_stamps es)"
  shows "distinct (map id' (tasks (run es tm)))"
  using assms
proof (induction es arbitrary: tm)
  case Nil
  then show ?case by simp
next
  case (Cons e es)
  show ?case
  proof (cases "creates e")
    case (Some now)
    then have stamps: "create_stamps (e # es) = now # create_stamps es"
      by (simp add: create_stamps_def)
    with Cons.prems have now: "valid_time now" "show_int now \<notin> set (map id' (tasks tm))"
      "now \<notin> set (create_stamps es)"
      by simp_all
    have new: "map id' (tasks (step e tm)) = show_int now # map id' (tasks tm)"
      using ids_step_creates [OF Some] Number_toString_int [OF valid_time_bound [OF now(1)]]
      by simp
    have "distinct (map id' (tasks (step e tm)))"
      using new now(2) Cons.prems(1) by simp
    moreover have "distinct (create_stamps es)" "list_all valid_time (create_stamps es)"
      using Cons.prems stamps by simp_all
    moreover have "list_all (\<lambda>n. show_int n \<notin> set (map id' (tasks (step e tm)))) (create_stamps es)"
      using Cons.prems(4) stamps now(3) new
      by (auto simp: list_all_iff dest: show_int_inj)
    ultimately have "distinct (map id' (tasks (run es (step e tm))))"
      by (rule Cons.IH)
    then show ?thesis by simp
  next
    case None
    then have sub: "set (map id' (tasks (step e tm))) \<subseteq> set (map id' (tasks tm))"
      and dist: "distinct (map id' (tasks tm)) \<longrightarrow> distinct (map id' (tasks (step e tm)))"
      using ids_step_other [of e tm] by blast+
    from None have stamps: "create_stamps (e # es) = create_stamps es"
      by (simp add: create_stamps_def)
    have "distinct (map id' (tasks (step e tm)))"
      using dist Cons.prems(1) by simp
    moreover have "distinct (create_stamps es)" "list_all valid_time (create_stamps es)"
      using Cons.prems stamps by simp_all
    moreover have "list_all (\<lambda>n. show_int n \<notin> set (map id' (tasks (step e tm)))) (create_stamps es)"
      unfolding list_all_iff
    proof
      fix n
      assume "n \<in> set (create_stamps es)"
      then have "show_int n \<notin> set (map id' (tasks tm))"
        using Cons.prems(4) stamps by (simp add: list_all_iff)
      then show "show_int n \<notin> set (map id' (tasks (step e tm)))"
        using sub by blast
    qed
    ultimately have "distinct (map id' (tasks (run es (step e tm))))"
      by (rule Cons.IH)
    then show ?thesis by simp
  qed
qed

theorem ids_stay_distinct_witness:
  "distinct (map id' (tasks fresh_manager))
   \<and> distinct (create_stamps
        [CreateTask ''a'' [] 1700000000000 1700000000000,
         ToggleTaskCompletion ''1700000000000'',
         CreateTask ''b'' [] 1700000000001 1700000000001,
         DeleteTask ''1700000000000'', TimerFires 4])
   \<and> distinct (map id' (tasks (run
        [CreateTask ''a'' [] 1700000000000 1700000000000,
         ToggleTaskCompletion ''1700000000000'',
         CreateTask ''b'' [] 1700000000001 1700000000001,
         DeleteTask ''1700000000000'', TimerFires 4] fresh_manager)))"
  using ids_stay_distinct [of fresh_manager
        "[CreateTask ''a'' [] 1700000000000 1700000000000,
         ToggleTaskCompletion ''1700000000000'',
         CreateTask ''b'' [] 1700000000001 1700000000001,
         DeleteTask ''1700000000000'', TimerFires 4]"]
  by (simp add: create_stamps_def valid_time_def fresh_manager_def)

theorem ids_collide_counterexample:
  "\<not> distinct (map id' (tasks (run
       [CreateTask ''a'' [] 1700000000000 1700000000000,
        CreateTask ''b'' [] 1700000000000 1700000000000] fresh_manager)))"
  by (simp add: tasks_createTask)

subsection \<open>Filtering\<close>

text \<open>
  Claim C4. \<^verbatim>\<open>filterTasks\<close> only reads the controller, so the model gives it no state
  to return. With the filter \<^verbatim>\<open>active\<close> it returns the tasks that are not completed,
  with \<^verbatim>\<open>completed\<close> those that are, and with \<^verbatim>\<open>all\<close> the tasks that are not
  completed when the hide-completed checkbox is checked and the whole list otherwise; a
  \<open>filter\<close> keeps the order of the list. Rendering, which calls it, leaves the task
  list as it is.
\<close>

theorem filterTasks_table:
  "filterTasks (tm\<lparr>currentFilter := ''active''\<rparr>) = filter (\<lambda>task. \<not> completed task) (tasks tm)
   \<and> filterTasks (tm\<lparr>currentFilter := ''completed''\<rparr>) = filter (\<lambda>task. completed task) (tasks tm)
   \<and> filterTasks (tm\<lparr>currentFilter := ''all'', hideCompletedToggle_checked := True\<rparr>)
       = filter (\<lambda>task. \<not> completed task) (tasks tm)
   \<and> filterTasks (tm\<lparr>currentFilter := ''all'', hideCompletedToggle_checked := False\<rparr>) = tasks tm
   \<and> tasks (renderTasks tm) = tasks tm"
  by (simp add: filterTasks_def tasks_renderTasks)

text \<open>The example of the specification: an active task \<open>A\<close> and a completed task \<open>B\<close>.\<close>

theorem filterTasks_table_witness:
  "filterTasks (fresh_manager\<lparr>tasks :=
       [\<lparr>id' = ''1'', title = ''A'', description = [], completed = False, createdAt = JDate 1\<rparr>,
        \<lparr>id' = ''2'', title = ''B'', description = [], completed = True, createdAt = JDate 2\<rparr>],
       currentFilter := ''active''\<rparr>)
     = [\<lparr>id' = ''1'', title = ''A'', description = [], completed = False, createdAt = JDate 1\<rparr>]
   \<and> filterTasks (fresh_manager\<lparr>tasks :=
       [\<lparr>id' = ''1'', title = ''A'', description = [], completed = False, createdAt = JDate 1\<rparr>,
        \<lparr>id' = ''2'', title = ''B'', description = [], completed = True, createdAt = JDate 2\<rparr>],
       currentFilter := ''completed''\<rparr>)
     = [\<lparr>id' = ''2'', title = ''B'', description = [], completed = True, createdAt = JDate 2\<rparr>]
   \<and> filterTasks (fresh_manager\<lparr>tasks :=
       [\<lparr>id' = ''1'', title = ''A'', description = [], completed = False, createdAt = JDate 1\<rparr>,
        \<lparr>id' = ''2'', title = ''B'', description = [], completed = True, createdAt = JDate 2\<rparr>],
       currentFilter := ''all'', hideCompletedToggle_checked := True\<rparr>)
     = [\<lparr>id' = ''1'', title = ''A'', description = [], completed = False, createdAt = JDate 1\<rparr>]
   \<and> filterTasks (fresh_manager\<lparr>tasks :=
       [\<lparr>id' = ''1'', title = ''A'', description = [], completed = False, createdAt = JDate 1\<rparr>,
        \<lparr>id' = ''2'', title = ''B'', description = [], completed = True, createdAt = JDate 2\<rparr>],
       currentFilter := ''all'', hideCompletedToggle_checked := False\<rparr>)
     = [\<lparr>id' = ''1'', title = ''A'', description = [], completed = False, createdAt = JDate 1\<rparr>,
        \<lparr>id' = ''2'', title = ''B'', description = [], completed = True, createdAt = JDate 2\<rparr>]"
  using filterTasks_table [of "fresh_manager\<lparr>tasks :=
       [\<lparr>id' = ''1'', title = ''A'', description = [], completed = False, createdAt = JDate 1\<rparr>,
        \<lparr>id' = ''2'', title = ''B'', description = [], completed = True, createdAt = JDate 2\<rparr>]\<rparr>"]
  by simp

subsection \<open>Creating a task\<close>

lemma trim_buy_milk: "trim ''  Buy milk  '' = ''Buy milk''"
  by code_simp

lemma show_nat_1700000000000: "show_nat 1700000000000 = ''1700000000000''"
  by (simp add: show_nat.simps digit_char_def)

lemma show_int_1700000000000: "show_int 1700000000000 = ''1700000000000''"
  by (simp add: show_int_def show_nat_1700000000000)

lemma show_nat_1700000000001: "show_nat 1700000000001 = ''1700000000001''"
  by (simp add: show_nat.simps digit_char_def)

lemma show_int_1700000000001: "show_int 1700000000001 = ''1700000000001''"
  by (simp add: show_int_def show_nat_1700000000001)

text \<open>
  Claim C5, as the code has it. \<^verbatim>\<open>createTask\<close> puts one new task in front of the list
  and leaves the rest of the list alone; the title and the description of the new task are
  the trimmed arguments and it is not completed. Its id is the text of the clock reading,
  the decimal numeral for a valid time value. That id is new to the list when every id in
  the list is the numeral of another reading; it is not new in general
  (\<open>createTask_id_counterexample\<close>: a second task made in the same millisecond).
\<close>

theorem createTask_prepends:
  "tasks (createTask ttl descr now created tm) =
     \<lparr>id' = Number_toString (of_int now), title = trim ttl, description = trim descr,
      completed = False, createdAt = JDate created\<rparr> # tasks tm
   \<and> (valid_time now \<longrightarrow> Number_toString (of_int now) = show_int now)
   \<and> (valid_time now
        \<and> list_all (\<lambda>task. \<exists>n. valid_time n \<and> n \<noteq> now \<and> id' task = show_int n) (tasks tm)
      \<longrightarrow> Number_toString (of_int now) \<notin> set (map id' (tasks tm)))"
proof (intro conjI impI)
  show "tasks (createTask ttl descr now created tm) =
     \<lparr>id' = Number_toString (of_int now), title = trim ttl, description = trim descr,
      completed = False, createdAt = JDate created\<rparr> # tasks tm"
    by (rule tasks_createTask)
next
  assume "valid_time now"
  then show "Number_toString (of_int now) = show_int now"
    by (intro Number_toString_int valid_time_bound)
next
  assume a: "valid_time now
        \<and> list_all (\<lambda>task. \<exists>n. valid_time n \<and> n \<noteq> now \<and> id' task = show_int n) (tasks tm)"
  then have eq: "Number_toString (of_int now) = show_int now"
    by (intro Number_toString_int valid_time_bound) simp
  have "show_int now \<noteq> id' task" if "task \<in> set (tasks tm)" for task
  proof -
    from a that obtain n where "n \<noteq> now" "id' task = show_int n"
      by (auto simp: list_all_iff)
    then show ?thesis
      using show_int_inj [of now n] by auto
  qed
  with eq show "Number_toString (of_int now) \<notin> set (map id' (tasks tm))"
    by auto
qed

theorem createTask_prepends_witness:
  "tasks (createTask ''  Buy milk  '' [] 1700000000001 1700000000002
      (createTask ''a'' [] 1700000000000 1700000000000 fresh_manager)) =
     [\<lparr>id' = ''1700000000001'', title = ''Buy milk'', description = [],
       completed = False, createdAt = JDate 1700000000002\<rparr>,
      \<lparr>id' = ''1700000000000'', title = ''a'', description = [],
       completed = False, createdAt = JDate 1700000000000\<rparr>]
   \<and> valid_time 1700000000001
   \<and> list_all (\<lambda>task. \<exists>n. valid_time n \<and> n \<noteq> 1700000000001 \<and> id' task = show_int n)
        (tasks (createTask ''a'' [] 1700000000000 1700000000000 fresh_manager))
   \<and> ''1700000000001'' \<notin> set (map id' (tasks (createTask ''a'' [] 1700000000000 1700000000000 fresh_manager)))"
proof -
  let ?tm = "createTask ''a'' [] 1700000000000 1700000000000 fresh_manager"
  have v0: "valid_time 1700000000000" and v1: "valid_time 1700000000001"
    by (simp_all add: valid_time_def)
  have trims: "trim ''a'' = ''a''" "trim [] = []"
    by code_simp+
  have id0: "Number_toString (of_int 1700000000000) = ''1700000000000''"
    using Number_toString_int [OF valid_time_bound [OF v0]]
    unfolding show_int_1700000000000 .
  have t0: "tasks ?tm = [\<lparr>id' = ''1700000000000'', title = ''a'', description = [],
       completed = False, createdAt = JDate 1700000000000\<rparr>]"
    unfolding tasks_createTask trims id0 by (simp add: fresh_manager_def)
  have "\<exists>n. valid_time n \<and> n \<noteq> 1700000000001 \<and> ''1700000000000'' = show_int n"
    using v0 show_int_1700000000000 by (intro exI [of _ 1700000000000]) simp
  then have old: "list_all (\<lambda>task. \<exists>n. valid_time n \<and> n \<noteq> 1700000000001 \<and> id' task = show_int n) (tasks ?tm)"
    unfolding t0 by simp
  note inst = createTask_prepends [of "''  Buy milk  ''" "[]" 1700000000001 1700000000002 ?tm]
  have id1: "Number_toString (of_int 1700000000001) = ''1700000000001''"
    using inst [THEN conjunct2, THEN conjunct1, rule_format, OF v1]
    unfolding show_int_1700000000001 .
  from inst have "tasks (createTask ''  Buy milk  '' [] 1700000000001 1700000000002 ?tm) =
     \<lparr>id' = Number_toString (of_int 1700000000001), title = trim ''  Buy milk  '', description = trim [],
      completed = False, createdAt = JDate 1700000000002\<rparr> # tasks ?tm"
    by (rule conjunct1)
  then have new: "tasks (createTask ''  Buy milk  '' [] 1700000000001 1700000000002 ?tm) =
     [\<lparr>id' = ''1700000000001'', title = ''Buy milk'', description = [],
       completed = False, createdAt = JDate 1700000000002\<rparr>,
      \<lparr>id' = ''1700000000000'', title = ''a'', description = [],
       completed = False, createdAt = JDate 1700000000000\<rparr>]"
    unfolding id1 trim_buy_milk trims t0 .
  have "Number_toString (of_int 1700000000001) \<notin> set (map id' (tasks ?tm))"
    by (rule inst [THEN conjunct2, THEN conjunct2, rule_format, OF conjI [OF v1 old]])
  then have fresh: "''1700000000001'' \<notin> set (map id' (tasks ?tm))"
    unfolding id1 .
  show ?thesis
    by (rule conjI [OF new conjI [OF v1 conjI [OF old fresh]]])
qed

theorem createTask_id_counterexample:
  "id' (hd (tasks (createTask ''b'' [] 1700000000000 1700000000000
        (createTask ''a'' [] 1700000000000 1700000000000 fresh_manager))))
     \<in> set (map id' (tasks (createTask ''a'' [] 1700000000000 1700000000000 fresh_manager)))"
  by (simp add: tasks_createTask)

subsection \<open>Deleting a task\<close>









subsection \<open>Escaping task text\<close>






end
